theory Spec2Isabelle
  imports Complex_Main "HOL-Library.Word"
begin

section \<open>Data model: the tables of server.js\<close>

text \<open>
  The rows of the two tables that the dispatch handlers read and write, with the columns
  of the \<^verbatim>\<open>CREATE TABLE\<close> statements of \<^verbatim>\<open>initDb\<close>. A nullable column
  is an \<open>option\<close> (\<open>None\<close> is SQL \<^verbatim>\<open>NULL\<close>). The columns \<^verbatim>\<open>name\<close>,
  \<^verbatim>\<open>badge_id\<close> and \<^verbatim>\<open>password\<close> are \<^verbatim>\<open>NOT NULL\<close>; the two
  \<^verbatim>\<open>status\<close> columns carry a default and no statement of the program ever writes
  \<^verbatim>\<open>NULL\<close> to them, so they are plain strings. \<^verbatim>\<open>REAL\<close> columns hold the number
  that was written (the rounding of the store's number format is not modelled),
  \<^verbatim>\<open>BYTEA\<close> is a list of bytes.
\<close>

type_synonym bytes = "8 word list"

record ticket =
  t_id :: int
  t_ticket_number :: "string option"
  t_service_type :: "string option"
  t_user_name :: "string option"
  t_phone :: "string option"
  t_latitude :: "real option"
  t_longitude :: "real option"
  t_incident_details :: "string option"
  t_rescuer_id :: "int option"
  t_rescuer_name :: "string option"
  t_status :: string
  t_created_at :: nat

record rescuer =
  r_id :: int
  r_name :: string
  r_badge_id :: string
  r_callsign :: "string option"
  r_phone :: "string option"
  r_password :: string
  r_profile_image :: "bytes option"
  r_status :: string
  r_last_lat :: "real option"
  r_last_lon :: "real option"

record store =
  tickets :: "ticket list"
  rescuers :: "rescuer list"

text \<open>
  SQL equality of a statement parameter with a column: a \<^verbatim>\<open>NULL\<close> on either side
  makes the comparison not true, so the row is not selected.
\<close>

definition sql_eq :: "'a option \<Rightarrow> 'a \<Rightarrow> bool" where
  "sql_eq p v = (p = Some v)"

definition sql_eq_null :: "'a option \<Rightarrow> 'a option \<Rightarrow> bool" where
  "sql_eq_null p c = (case c of None \<Rightarrow> False | Some v \<Rightarrow> sql_eq p v)"

text \<open>Observers: the row with a given primary key, as \<^verbatim>\<open>SELECT ... WHERE id = k\<close> returns it.\<close>

definition find_ticket :: "store \<Rightarrow> int \<Rightarrow> ticket option" where
  "find_ticket s k = find (\<lambda>t. t_id t = k) (tickets s)"

definition find_rescuer :: "store \<Rightarrow> int \<Rightarrow> rescuer option" where
  "find_rescuer s k = find (\<lambda>r. r_id r = k) (rescuers s)"

section \<open>The store: statements that may fail, and transactions\<close>

text \<open>
  Every \<^verbatim>\<open>await pool.query(...)\<close> and \<^verbatim>\<open>await client.query(...)\<close> of the handlers
  may throw, and so may \<^verbatim>\<open>await pool.connect()\<close>. These calls are named, and a handler
  runs against a fault oracle that says for each of them whether it throws, and with which
  \<^verbatim>\<open>err.message\<close>.
\<close>

datatype stmt =
    Connect | Begin | UpdateTicket | UpdateRescuer | Commit | Rollback
  | SolveUpdate | CheckMission | LocationUpdate
  | LoginSelect | LoginUpdate | LogoutUpdate | PutUpdate | ImageSelect

type_synonym faults = "stmt \<Rightarrow> string option"

text \<open>
  A pooled client: the committed tables that every other connection sees, and the working
  copy of the open transaction, if there is one. Outside a transaction a statement commits
  at once; inside, it changes the working copy only.
\<close>

record client =
  committed :: store
  txn :: "store option"

definition begin_txn :: "client \<Rightarrow> client" where
  "begin_txn c = (case txn c of None \<Rightarrow> c\<lparr>txn := Some (committed c)\<rparr> | Some w \<Rightarrow> c)"

definition exec :: "(store \<Rightarrow> store) \<Rightarrow> client \<Rightarrow> client" where
  "exec f c = (case txn c of None \<Rightarrow> c\<lparr>committed := f (committed c)\<rparr>
                           | Some w \<Rightarrow> c\<lparr>txn := Some (f w)\<rparr>)"

definition commit_txn :: "client \<Rightarrow> client" where
  "commit_txn c = (case txn c of None \<Rightarrow> c | Some w \<Rightarrow> \<lparr>committed = w, txn = None\<rparr>)"

definition rollback_txn :: "client \<Rightarrow> client" where
  "rollback_txn c = c\<lparr>txn := None\<rparr>"

text \<open>
  \<^verbatim>\<open>await client.query(q)\<close>: \<open>Inl\<close> is the throw, with the client as the failed
  statement left it (a failed statement has no effect); \<open>Inr\<close> is the client after the
  statement.
\<close>

definition client_query :: "faults \<Rightarrow> stmt \<Rightarrow> (client \<Rightarrow> client) \<Rightarrow> client \<Rightarrow> client + client" where
  "client_query fails q f c = (case fails q of Some e \<Rightarrow> Inl c | None \<Rightarrow> Inr (f c))"

text \<open>\<^verbatim>\<open>await pool.query(q)\<close> of a writing statement, in autocommit: \<open>Inl\<close> is \<^verbatim>\<open>err.message\<close>.\<close>

definition pool_query :: "faults \<Rightarrow> stmt \<Rightarrow> (store \<Rightarrow> store) \<Rightarrow> store \<Rightarrow> string + store" where
  "pool_query fails q f s = (case fails q of Some e \<Rightarrow> Inl e | None \<Rightarrow> Inr (f s))"

text \<open>\<^verbatim>\<open>await pool.query(q)\<close> of a \<^verbatim>\<open>SELECT\<close>: the rows, or the throw.\<close>

definition pool_select :: "faults \<Rightarrow> stmt \<Rightarrow> 'a list \<Rightarrow> string + 'a list" where
  "pool_select fails q rows = (case fails q of Some e \<Rightarrow> Inl e | None \<Rightarrow> Inr rows)"

section \<open>Responses\<close>

datatype jv = JBool bool | JStr string

datatype body =
    Obj "(string \<times> jv) list"
  | Row rescuer
  | Text string
  | Image bytes

datatype response = Response nat body

text \<open>
  What a handler does with a request: it sends a response, or its promise rejects before it
  has sent one. What the framework then does with the rejection is outside the program.
\<close>

datatype outcome = Sent response | Rejected

section \<open>POST /api/ticket/assign\<close>

text \<open>
  \<^verbatim>\<open>UPDATE tickets SET rescuer_id = $1, rescuer_name = $2, status = 'DISPATCHED' WHERE id = $3\<close>
\<close>

definition updateTicket :: "int option \<Rightarrow> string option \<Rightarrow> int option \<Rightarrow> store \<Rightarrow> store" where
  "updateTicket rescuerId rescuerName ticketId s =
     s\<lparr>tickets := map (\<lambda>t. if sql_eq ticketId (t_id t)
                            then t\<lparr>t_rescuer_id := rescuerId, t_rescuer_name := rescuerName,
                                   t_status := ''DISPATCHED''\<rparr>
                            else t) (tickets s)\<rparr>"

text \<open>\<^verbatim>\<open>UPDATE rescuers SET status = 'on-mission' WHERE id = $1\<close>\<close>

definition updateRescuer :: "int option \<Rightarrow> store \<Rightarrow> store" where
  "updateRescuer rescuerId s =
     s\<lparr>rescuers := map (\<lambda>r. if sql_eq rescuerId (r_id r) then r\<lparr>r_status := ''on-mission''\<rparr> else r)
                        (rescuers s)\<rparr>"

text \<open>The body of the \<^verbatim>\<open>try\<close> block: the first statement that throws ends it.\<close>

definition assign_try :: "faults \<Rightarrow> int option \<Rightarrow> int option \<Rightarrow> string option \<Rightarrow> client \<Rightarrow> client + client" where
  "assign_try fails ticketId rescuerId rescuerName c0 =
     (case client_query fails Begin begin_txn c0 of
        Inl c \<Rightarrow> Inl c
      | Inr c1 \<Rightarrow>
         (case client_query fails UpdateTicket
                 (exec (updateTicket rescuerId rescuerName ticketId)) c1 of
            Inl c \<Rightarrow> Inl c
          | Inr c2 \<Rightarrow>
             (case client_query fails UpdateRescuer (exec (updateRescuer rescuerId)) c2 of
                Inl c \<Rightarrow> Inl c
              | Inr c3 \<Rightarrow> client_query fails Commit commit_txn c3)))"

definition dispatched :: response where
  "dispatched = Response 200 (Obj [(''success'', JBool True), (''message'', JStr ''Unit dispatched!'')])"

definition update_failed :: response where
  "update_failed = Response 500 (Obj [(''error'', JStr ''Update failed'')])"

text \<open>
  The handler. \<^verbatim>\<open>pool.connect()\<close> is awaited before the \<^verbatim>\<open>try\<close>, and the
  \<^verbatim>\<open>ROLLBACK\<close> is awaited inside the \<^verbatim>\<open>catch\<close>: when one of them throws, the
  handler's promise rejects and the handler has sent no response (\<open>Rejected\<close>). The second
  component is the committed store after the request; the client goes back to the pool in
  \<^verbatim>\<open>finally\<close>.
\<close>

definition ticket_assign ::
  "faults \<Rightarrow> int option \<Rightarrow> int option \<Rightarrow> string option \<Rightarrow> store \<Rightarrow> outcome \<times> store" where
  "ticket_assign fails ticketId rescuerId rescuerName s =
     (case fails Connect of
        Some e \<Rightarrow> (Rejected, s)
      | None \<Rightarrow>
         (case assign_try fails ticketId rescuerId rescuerName \<lparr>committed = s, txn = None\<rparr> of
            Inr c \<Rightarrow> (Sent dispatched, committed c)
          | Inl c \<Rightarrow>
             (case client_query fails Rollback rollback_txn c of
                Inl c' \<Rightarrow> (Rejected, committed c')
              | Inr c' \<Rightarrow> (Sent update_failed, committed c'))))"

section \<open>POST /api/ticket/solve/:id\<close>

text \<open>\<^verbatim>\<open>UPDATE tickets SET status = 'SOLVED' WHERE id = $1\<close>\<close>

definition solveUpdate :: "int \<Rightarrow> store \<Rightarrow> store" where
  "solveUpdate k s =
     s\<lparr>tickets := map (\<lambda>t. if t_id t = k then t\<lparr>t_status := ''SOLVED''\<rparr> else t) (tickets s)\<rparr>"

definition error_message :: "string \<Rightarrow> response" where
  "error_message e = Response 500 (Obj [(''error'', JStr e)])"

definition ticket_solve :: "faults \<Rightarrow> int \<Rightarrow> store \<Rightarrow> response \<times> store" where
  "ticket_solve fails k s =
     (case pool_query fails SolveUpdate (solveUpdate k) s of
        Inr s' \<Rightarrow> (Response 200 (Obj [(''message'', JStr ''Ticket marked as solved'')]), s')
      | Inl e \<Rightarrow> (error_message e, s))"

section \<open>POST /api/rescuer/location\<close>

text \<open>\<^verbatim>\<open>SELECT id FROM tickets WHERE rescuer_id = $1 AND status = 'DISPATCHED'\<close>\<close>

definition checkMission :: "int option \<Rightarrow> store \<Rightarrow> ticket list" where
  "checkMission rescuerId s =
     filter (\<lambda>t. sql_eq_null rescuerId (t_rescuer_id t) \<and> t_status t = ''DISPATCHED'') (tickets s)"

text \<open>\<^verbatim>\<open>UPDATE rescuers SET last_lat = $1, last_lon = $2, status = $3 WHERE id = $4\<close>\<close>

definition locationUpdate :: "real option \<Rightarrow> real option \<Rightarrow> string \<Rightarrow> int option \<Rightarrow> store \<Rightarrow> store" where
  "locationUpdate lat lon newStatus rescuerId s =
     s\<lparr>rescuers := map (\<lambda>r. if sql_eq rescuerId (r_id r)
                              then r\<lparr>r_last_lat := lat, r_last_lon := lon, r_status := newStatus\<rparr>
                              else r) (rescuers s)\<rparr>"

definition rescuer_location ::
  "faults \<Rightarrow> int option \<Rightarrow> real option \<Rightarrow> real option \<Rightarrow> store \<Rightarrow> response \<times> store" where
  "rescuer_location fails rescuerId lat lon s =
     (case pool_select fails CheckMission (checkMission rescuerId s) of
        Inl e \<Rightarrow> (error_message e, s)
      | Inr missionResult \<Rightarrow>
         (let newStatus = (if length missionResult > 0 then ''responding'' else ''available'')
          in case pool_query fails LocationUpdate (locationUpdate lat lon newStatus rescuerId) s of
               Inl e \<Rightarrow> (error_message e, s)
             | Inr s' \<Rightarrow>
                (Response 200 (Obj [(''success'', JBool True), (''status'', JStr newStatus)]), s')))"

section \<open>POST /api/rescuer/login and /api/rescuer/logout\<close>

text \<open>\<^verbatim>\<open>UPDATE rescuers SET status = 'available' WHERE id = $1\<close>, with \<^verbatim>\<open>rescuer.id\<close>.\<close>

definition loginUpdate :: "int \<Rightarrow> store \<Rightarrow> store" where
  "loginUpdate k s =
     s\<lparr>rescuers := map (\<lambda>r. if r_id r = k then r\<lparr>r_status := ''available''\<rparr> else r) (rescuers s)\<rparr>"

text \<open>\<^verbatim>\<open>UPDATE rescuers SET status = 'off-duty' WHERE id = $1\<close>, with the request's \<^verbatim>\<open>rescuerId\<close>.\<close>

definition logoutUpdate :: "int option \<Rightarrow> store \<Rightarrow> store" where
  "logoutUpdate rescuerId s =
     s\<lparr>rescuers := map (\<lambda>r. if sql_eq rescuerId (r_id r) then r\<lparr>r_status := ''off-duty''\<rparr> else r)
                        (rescuers s)\<rparr>"

definition auth_failed :: response where
  "auth_failed = Response 401 (Obj [(''error'', JStr ''Auth Failed'')])"

definition server_error :: response where
  "server_error = Response 500 (Obj [(''error'', JStr ''Server Error'')])"

text \<open>
  The credential hasher is not part of the program: \<open>compare\<close> stands for
  \<^verbatim>\<open>bcrypt.compare(password, rescuer.password)\<close>, \<open>Some match\<close> when the promise
  resolves and \<open>None\<close> when it rejects, which the library does when the request has no
  \<^verbatim>\<open>password\<close> (or one that is not a string). \<^verbatim>\<open>SELECT * FROM rescuers WHERE badge_id = $1\<close>
  gives the rows in table order and the handler takes \<^verbatim>\<open>result.rows[0]\<close>;
  \<^verbatim>\<open>res.json(rescuer)\<close> sends that row object.
\<close>

definition rescuer_login ::
  "faults \<Rightarrow> (string option \<Rightarrow> string \<Rightarrow> bool option) \<Rightarrow> string option \<Rightarrow> string option \<Rightarrow> store
     \<Rightarrow> response \<times> store" where
  "rescuer_login fails compare badge_id password s =
     (case pool_select fails LoginSelect (filter (\<lambda>r. sql_eq badge_id (r_badge_id r)) (rescuers s)) of
        Inl e \<Rightarrow> (server_error, s)
      | Inr rows \<Rightarrow>
         (case rows of
            [] \<Rightarrow> (auth_failed, s)
          | rescuer # _ \<Rightarrow>
             (case compare password (r_password rescuer) of
                None \<Rightarrow> (server_error, s)
              | Some match \<Rightarrow>
                 if match
                 then (case pool_query fails LoginUpdate (loginUpdate (r_id rescuer)) s of
                         Inl e \<Rightarrow> (server_error, s)
                       | Inr s' \<Rightarrow> (Response 200 (Row rescuer), s'))
                 else (auth_failed, s))))"

definition rescuer_logout :: "faults \<Rightarrow> int option \<Rightarrow> store \<Rightarrow> response \<times> store" where
  "rescuer_logout fails rescuerId s =
     (case pool_query fails LogoutUpdate (logoutUpdate rescuerId) s of
        Inr s' \<Rightarrow> (Response 200 (Obj [(''success'', JBool True)]), s')
      | Inl e \<Rightarrow> (error_message e, s))"

section \<open>PUT /api/rescuers/:id and GET /api/rescuers/image/:id\<close>

text \<open>
  \<^verbatim>\<open>UPDATE rescuers SET name=$1, badge_id=$2, callsign=$3, phone=$4, profile_image=$5 WHERE id=$6\<close>
  and the statement of the other branch, which has no \<^verbatim>\<open>profile_image\<close> assignment.
\<close>

definition putWithImage ::
  "string option \<Rightarrow> string option \<Rightarrow> string option \<Rightarrow> string option \<Rightarrow> bytes \<Rightarrow> int
     \<Rightarrow> store \<Rightarrow> store" where
  "putWithImage name badge_id callsign phone imageBuffer k s =
     s\<lparr>rescuers :=
         map (\<lambda>r. if r_id r = k
                   then (case (name, badge_id) of
                           (Some n, Some b) \<Rightarrow>
                             r\<lparr>r_name := n, r_badge_id := b, r_callsign := callsign,
                               r_phone := phone, r_profile_image := Some imageBuffer\<rparr>
                         | _ \<Rightarrow> r)
                   else r) (rescuers s)\<rparr>"

definition putWithoutImage ::
  "string option \<Rightarrow> string option \<Rightarrow> string option \<Rightarrow> string option \<Rightarrow> int
     \<Rightarrow> store \<Rightarrow> store" where
  "putWithoutImage name badge_id callsign phone k s =
     s\<lparr>rescuers :=
         map (\<lambda>r. if r_id r = k
                   then (case (name, badge_id) of
                           (Some n, Some b) \<Rightarrow>
                             r\<lparr>r_name := n, r_badge_id := b, r_callsign := callsign,
                               r_phone := phone\<rparr>
                         | _ \<Rightarrow> r)
                   else r) (rescuers s)\<rparr>"

text \<open>
  The constraints of the table that the statement can violate, checked by the store on the
  rows it updates: \<^verbatim>\<open>name\<close> and \<^verbatim>\<open>badge_id\<close> are \<^verbatim>\<open>NOT NULL\<close>, and
  \<^verbatim>\<open>badge_id\<close> is \<^verbatim>\<open>UNIQUE\<close>. A statement that updates no row violates nothing.
  A violation makes \<^verbatim>\<open>pool.query\<close> throw, so the statement never writes a
  \<^verbatim>\<open>NULL\<close> name or badge_id into a row (the second case of the two updates above).
\<close>

definition put_violation :: "string option \<Rightarrow> string option \<Rightarrow> int \<Rightarrow> store \<Rightarrow> bool" where
  "put_violation name badge_id k s =
     (let hit = filter (\<lambda>r. r_id r = k) (rescuers s);
          rest = filter (\<lambda>r. r_id r \<noteq> k) (rescuers s)
      in hit \<noteq> [] \<and>
         (name = None \<or> badge_id = None \<or> length hit > 1 \<or>
          (\<exists>r \<in> set rest. Some (r_badge_id r) = badge_id)))"

definition updated :: response where
  "updated = Response 200 (Obj [(''message'', JStr ''Updated successfully'')])"

definition rescuers_put ::
  "faults \<Rightarrow> int \<Rightarrow> string option \<Rightarrow> string option \<Rightarrow> string option \<Rightarrow> string option \<Rightarrow> bytes option
     \<Rightarrow> store \<Rightarrow> response \<times> store" where
  "rescuers_put fails k name badge_id callsign phone file s =
     (let imageBuffer = file
      in if put_violation name badge_id k s then (update_failed, s)
         else (case pool_query fails PutUpdate
                      (case imageBuffer of
                         Some img \<Rightarrow> putWithImage name badge_id callsign phone img k
                       | None \<Rightarrow> putWithoutImage name badge_id callsign phone k) s of
                 Inl e \<Rightarrow> (update_failed, s)
               | Inr s' \<Rightarrow> (updated, s')))"

text \<open>\<^verbatim>\<open>SELECT profile_image FROM rescuers WHERE id = $1\<close>\<close>

definition rescuers_image :: "faults \<Rightarrow> int \<Rightarrow> store \<Rightarrow> response" where
  "rescuers_image fails k s =
     (case pool_select fails ImageSelect (filter (\<lambda>r. r_id r = k) (rescuers s)) of
        Inl e \<Rightarrow> Response 500 (Text ''Error fetching image'')
      | Inr rows \<Rightarrow>
         (case rows of
            [] \<Rightarrow> Response 404 (Text ''Image not found'')
          | row # _ \<Rightarrow>
             (case r_profile_image row of
                None \<Rightarrow> Response 404 (Text ''Image not found'')
              | Some img \<Rightarrow> Response 200 (Image img))))"

section \<open>Example data\<close>

text \<open>
  A small store: ticket 1 is new, ticket 2 was dispatched to rescuer 7 and then solved,
  ticket 3 is dispatched to rescuer 7; rescuer 5 is available and has a profile image,
  rescuer 7 is on a mission. The example hasher accepts the password \<open>pw\<close> for the
  stored hash \<open>hash(pw)\<close> and rejects a request without a password.
\<close>

definition ticket1 :: ticket where
  "ticket1 = \<lparr>t_id = 1, t_ticket_number = Some ''SOS-001'', t_service_type = Some ''fire'',
     t_user_name = Some ''Dana'', t_phone = Some ''0917'', t_latitude = Some 10.25,
     t_longitude = Some 123.75, t_incident_details = None, t_rescuer_id = None,
     t_rescuer_name = None, t_status = ''ACTIVE'', t_created_at = 100\<rparr>"

definition ticket2 :: ticket where
  "ticket2 = \<lparr>t_id = 2, t_ticket_number = Some ''SOS-002'', t_service_type = Some ''medical'',
     t_user_name = Some ''Eli'', t_phone = None, t_latitude = None, t_longitude = None,
     t_incident_details = Some ''fall'', t_rescuer_id = Some 7, t_rescuer_name = Some ''Sam'',
     t_status = ''SOLVED'', t_created_at = 90\<rparr>"

definition ticket3 :: ticket where
  "ticket3 = \<lparr>t_id = 3, t_ticket_number = Some ''SOS-003'', t_service_type = Some ''police'',
     t_user_name = None, t_phone = None, t_latitude = Some 10.5, t_longitude = Some 123.5,
     t_incident_details = None, t_rescuer_id = Some 7, t_rescuer_name = Some ''Sam'',
     t_status = ''DISPATCHED'', t_created_at = 120\<rparr>"

definition alex :: rescuer where
  "alex = \<lparr>r_id = 5, r_name = ''Alex'', r_badge_id = ''B-005'', r_callsign = Some ''Alpha'',
     r_phone = Some ''0918'', r_password = ''hash(alpha)'', r_profile_image = Some [255, 216, 255],
     r_status = ''available'', r_last_lat = None, r_last_lon = None\<rparr>"

definition sam :: rescuer where
  "sam = \<lparr>r_id = 7, r_name = ''Sam'', r_badge_id = ''B-007'', r_callsign = None,
     r_phone = None, r_password = ''hash(sierra)'', r_profile_image = None,
     r_status = ''on-mission'', r_last_lat = Some 10.5, r_last_lon = Some 123.5\<rparr>"

definition demo :: store where
  "demo = \<lparr>tickets = [ticket1, ticket2, ticket3], rescuers = [alex, sam]\<rparr>"

definition demo_compare :: "string option \<Rightarrow> string \<Rightarrow> bool option" where
  "demo_compare password hash =
     (case password of None \<Rightarrow> None | Some pw \<Rightarrow> Some (hash = ''hash('' @ pw @ '')''))"

definition no_faults :: faults where
  "no_faults = (\<lambda>q. None)"

text \<open>
  The connection is lost after \<^verbatim>\<open>BEGIN\<close>: the client was obtained and the transaction
  opened, and every later statement on that client throws, the \<^verbatim>\<open>ROLLBACK\<close> included.
\<close>

definition connection_lost :: faults where
  "connection_lost =
     (\<lambda>q. if q = Connect \<or> q = Begin then None else Some ''Connection terminated unexpectedly'')"

section \<open>Lemmas about the store and the transaction\<close>

lemma find_map_keep:
  assumes "\<And>x. key (g x) = key x"
  shows "find (\<lambda>x. key x = k) (map g xs) = map_option g (find (\<lambda>x. key x = k) xs)"
  by (induction xs) (simp_all add: assms)

lemma map_unchanged:
  assumes "\<forall>x \<in> set xs. \<not> P x"
  shows "map (\<lambda>x. if P x then g x else x) xs = xs"
  using assms by (induction xs) simp_all

lemma assign_try_ok:
  assumes "fails Begin = None" "fails UpdateTicket = None" "fails UpdateRescuer = None"
    "fails Commit = None"
  shows "assign_try fails tid rid rn \<lparr>committed = s, txn = None\<rparr> =
           Inr \<lparr>committed = updateRescuer rid (updateTicket rid rn tid s), txn = None\<rparr>"
  using assms
  by (simp add: assign_try_def client_query_def begin_txn_def exec_def commit_txn_def)

lemma assign_try_fail:
  assumes "fails Begin \<noteq> None \<or> fails UpdateTicket \<noteq> None \<or> fails UpdateRescuer \<noteq> None \<or>
    fails Commit \<noteq> None"
  shows "\<exists>c. assign_try fails tid rid rn \<lparr>committed = s, txn = None\<rparr> = Inl c \<and> committed c = s"
  using assms
  by (auto simp add: assign_try_def client_query_def begin_txn_def exec_def commit_txn_def
      split: option.splits)

lemma assign_ok:
  assumes "fails Connect = None" "fails Begin = None" "fails UpdateTicket = None"
    "fails UpdateRescuer = None" "fails Commit = None"
  shows "ticket_assign fails tid rid rn s =
           (Sent dispatched, updateRescuer rid (updateTicket rid rn tid s))"
  using assms by (simp add: ticket_assign_def assign_try_ok)

lemma assign_fail_store:
  assumes "fails Connect \<noteq> None \<or> fails Begin \<noteq> None \<or> fails UpdateTicket \<noteq> None \<or>
    fails UpdateRescuer \<noteq> None \<or> fails Commit \<noteq> None"
  shows "snd (ticket_assign fails tid rid rn s) = s \<and>
         fst (ticket_assign fails tid rid rn s) \<noteq> Sent dispatched"
proof (cases "fails Connect")
  case (Some e)
  then show ?thesis by (simp add: ticket_assign_def)
next
  case None
  with assms obtain c where c: "assign_try fails tid rid rn \<lparr>committed = s, txn = None\<rparr> = Inl c"
    "committed c = s"
    using assign_try_fail[of fails tid rid rn s] by auto
  show ?thesis using None c
    by (simp add: ticket_assign_def client_query_def rollback_txn_def dispatched_def
        update_failed_def split: option.splits)
qed

lemma find_ticket_assigned:
  "find_ticket (updateRescuer rid' (updateTicket rid rn tid s)) k =
     map_option (\<lambda>t. if sql_eq tid (t_id t)
                      then t\<lparr>t_rescuer_id := rid, t_rescuer_name := rn, t_status := ''DISPATCHED''\<rparr>
                      else t) (find_ticket s k)"
  by (simp add: find_ticket_def updateRescuer_def updateTicket_def find_map_keep)

lemma find_rescuer_assigned:
  "find_rescuer (updateRescuer rid' (updateTicket rid rn tid s)) k =
     map_option (\<lambda>r. if sql_eq rid' (r_id r) then r\<lparr>r_status := ''on-mission''\<rparr> else r)
       (find_rescuer s k)"
  by (simp add: find_rescuer_def updateRescuer_def updateTicket_def find_map_keep)

lemma find_SomeD_key: "find (\<lambda>x. key x = k) xs = Some x \<Longrightarrow> key x = k"
  by (induction xs) (auto split: if_splits)

lemma find_filter_rows:
  "(case filter P xs of [] \<Rightarrow> a | x # _ \<Rightarrow> f x) = (case find P xs of None \<Rightarrow> a | Some x \<Rightarrow> f x)"
  by (induction xs) simp_all

lemma sql_eq_Some: "sql_eq (Some k) v \<longleftrightarrow> v = k"
  by (auto simp add: sql_eq_def)

lemma has_rows_iff: "0 < length (filter P xs) \<longleftrightarrow> (\<exists>x \<in> set xs. P x)"
  by (induction xs) auto

lemma solveUpdate_twice: "solveUpdate k (solveUpdate k s) = solveUpdate k s"
  by (simp add: solveUpdate_def)

lemma find_ticket_solved:
  "find_ticket (solveUpdate k s) j =
     map_option (\<lambda>t. if t_id t = k then t\<lparr>t_status := ''SOLVED''\<rparr> else t) (find_ticket s j)"
  by (simp add: find_ticket_def solveUpdate_def find_map_keep)

lemma solve_ok:
  "fails SolveUpdate = None \<Longrightarrow>
   ticket_solve fails k s =
     (Response 200 (Obj [(''message'', JStr ''Ticket marked as solved'')]), solveUpdate k s)"
  by (simp add: ticket_solve_def pool_query_def)

lemma login_unknown_badge:
  assumes "fails LoginSelect = None" and "\<forall>x \<in> set (rescuers s). \<not> sql_eq b (r_badge_id x)"
  shows "rescuer_login fails compare b pw s = (auth_failed, s)"
proof -
  have "filter (\<lambda>r. sql_eq b (r_badge_id r)) (rescuers s) = []"
    using assms(2) by (simp add: filter_empty_conv)
  then show ?thesis using assms(1)
    by (simp add: rescuer_login_def pool_select_def)
qed

lemma login_known_badge:
  assumes "fails LoginSelect = None" and "find (\<lambda>x. r_badge_id x = b) (rescuers s) = Some r"
  shows "rescuer_login fails compare (Some b) pw s =
           (case compare pw (r_password r) of
              None \<Rightarrow> (server_error, s)
            | Some match \<Rightarrow>
               if match
               then (case fails LoginUpdate of
                       Some e \<Rightarrow> (server_error, s)
                     | None \<Rightarrow> (Response 200 (Row r), loginUpdate (r_id r) s))
               else (auth_failed, s))"
  using assms
  by (simp add: rescuer_login_def pool_select_def pool_query_def sql_eq_Some find_filter_rows
      split: option.splits)

lemma image_lookup:
  "rescuers_image fails k s =
     (case fails ImageSelect of
        Some e \<Rightarrow> Response 500 (Text ''Error fetching image'')
      | None \<Rightarrow>
         (case map_option r_profile_image (find_rescuer s k) of
            Some (Some img) \<Rightarrow> Response 200 (Image img)
          | _ \<Rightarrow> Response 404 (Text ''Image not found'')))"
  by (simp add: rescuers_image_def pool_select_def find_rescuer_def find_filter_rows
      split: option.splits)

lemma put_cases:
  "rescuers_put fails k name badge callsign phone file s = (update_failed, s) \<or>
   \<not> put_violation name badge k s \<and>
     rescuers_put fails k name badge callsign phone file s =
       (updated, case file of Some img \<Rightarrow> putWithImage name badge callsign phone img k s
                            | None \<Rightarrow> putWithoutImage name badge callsign phone k s)"
  by (simp add: rescuers_put_def pool_query_def split: option.splits)

lemma find_rescuer_putWithoutImage:
  "map_option r_profile_image (find_rescuer (putWithoutImage name badge callsign phone k s) j) =
   map_option r_profile_image (find_rescuer s j)"
proof -
  have "find_rescuer (putWithoutImage name badge callsign phone k s) j =
        map_option (\<lambda>r. if r_id r = k
                   then (case (name, badge) of
                           (Some n, Some b) \<Rightarrow>
                             r\<lparr>r_name := n, r_badge_id := b, r_callsign := callsign,
                               r_phone := phone\<rparr>
                         | _ \<Rightarrow> r)
                   else r) (find_rescuer s j)"
    by (simp add: find_rescuer_def putWithoutImage_def find_map_keep split: option.splits)
  then show ?thesis
    by (cases "find_rescuer s j") (simp_all split: option.splits)
qed

lemma no_violation_named:
  assumes "\<not> put_violation name badge k s" and "find_rescuer s k = Some r"
  shows "\<exists>n b. name = Some n \<and> badge = Some b"
proof -
  have "r \<in> set (rescuers s)" "r_id r = k"
    using assms(2) by (auto simp add: find_rescuer_def find_Some_iff)
  then have "filter (\<lambda>r. r_id r = k) (rescuers s) \<noteq> []"
    by (auto simp add: filter_empty_conv)
  with assms(1) show ?thesis
    by (auto simp add: put_violation_def Let_def)
qed

lemma find_rescuer_putWithImage:
  "find_rescuer (putWithImage (Some n) (Some b) callsign phone img k s) k =
     map_option (\<lambda>r. r\<lparr>r_name := n, r_badge_id := b, r_callsign := callsign, r_phone := phone,
                       r_profile_image := Some img\<rparr>) (find_rescuer s k)"
proof -
  have "find_rescuer (putWithImage (Some n) (Some b) callsign phone img k s) k =
     map_option (\<lambda>r. if r_id r = k then r\<lparr>r_name := n, r_badge_id := b, r_callsign := callsign, r_phone := phone,
                       r_profile_image := Some img\<rparr> else r) (find_rescuer s k)"
    by (simp add: find_rescuer_def putWithImage_def find_map_keep cong: if_cong)
  then show ?thesis
    by (cases "find_rescuer s k")
       (auto simp add: find_rescuer_def dest: find_SomeD_key[where key = r_id])
qed

section \<open>Assignment\<close>

text \<open>
  C1. What AssignRescuer does when a statement of its transaction (\<^verbatim>\<open>BEGIN\<close>, the two
  \<^verbatim>\<open>UPDATE\<close>s, \<^verbatim>\<open>COMMIT\<close>) fails, for every pre-state, ticket id and
  rescuer id. The committed store after the request is the store before it, so the
  assignment is atomic. The error 500 "Update failed" is sent exactly when the
  \<^verbatim>\<open>ROLLBACK\<close> of the \<^verbatim>\<open>catch\<close> block runs; when that statement throws as well, the
  handler sends no response and its promise rejects, so no error is reported by the
  handler. The instance below is a connection lost after \<^verbatim>\<open>BEGIN\<close>.
\<close>

theorem assign_failure_outcome:
  assumes "fails Connect = None"
    and "fails Begin \<noteq> None \<or> fails UpdateTicket \<noteq> None \<or> fails UpdateRescuer \<noteq> None \<or>
      fails Commit \<noteq> None"
  shows "snd (ticket_assign fails tid rid rn s) = s \<and>
         find_ticket (snd (ticket_assign fails tid rid rn s)) k = find_ticket s k \<and>
         find_rescuer (snd (ticket_assign fails tid rid rn s)) j = find_rescuer s j \<and>
         fst (ticket_assign fails tid rid rn s) =
           (if fails Rollback = None then Sent update_failed else Rejected)"
proof -
  have st: "snd (ticket_assign fails tid rid rn s) = s"
    using assign_fail_store[of fails tid rid rn s] assms(2) by auto
  from assms(2) obtain c where c: "assign_try fails tid rid rn \<lparr>committed = s, txn = None\<rparr> = Inl c"
    using assign_try_fail[of fails tid rid rn s] by auto
  have "fst (ticket_assign fails tid rid rn s) =
          (if fails Rollback = None then Sent update_failed else Rejected)"
    using assms(1) c by (auto simp add: ticket_assign_def client_query_def)
  with st show ?thesis by simp
qed

theorem assign_failure_outcome_witness:
  "connection_lost Connect = None \<and> connection_lost UpdateTicket \<noteq> None \<and>
   connection_lost Rollback \<noteq> None \<and>
   ticket_assign connection_lost (Some 1) (Some 5) (Some ''Alex'') demo = (Rejected, demo) \<and>
   find_ticket (snd (ticket_assign connection_lost (Some 1) (Some 5) (Some ''Alex'') demo)) 1
     = Some ticket1 \<and>
   find_rescuer (snd (ticket_assign connection_lost (Some 1) (Some 5) (Some ''Alex'') demo)) 5
     = Some alex"
proof -
  have f: "connection_lost Connect = None" "connection_lost UpdateTicket \<noteq> None"
    "connection_lost Rollback \<noteq> None"
    by (simp_all add: connection_lost_def)
  have t: "find_ticket demo 1 = Some ticket1"
    by (simp add: find_ticket_def demo_def ticket1_def)
  have r: "find_rescuer demo 5 = Some alex"
    by (simp add: find_rescuer_def demo_def alex_def)
  show ?thesis
    using assign_failure_outcome [where fails = connection_lost and tid = "Some 1"
        and rid = "Some 5" and rn = "Some ''Alex''" and s = demo and k = 1 and j = 5] f t r
    by (simp add: prod_eq_iff)
qed

text \<open>
  C2. For a ticket and a rescuer that exist in the store, AssignRescuer succeeds exactly
  when no statement of the request fails, and then the ticket has rescuer_id = rescuerId,
  rescuer_name = rescuerName and status DISPATCHED and the rescuer has status on-mission;
  when it does not succeed, the store is the store before the request, so the four updates
  are seen together or not at all.
\<close>

theorem assign_success_updates:
  assumes "find_ticket s tid = Some t" and "find_rescuer s rid = Some r"
  shows "(fst (ticket_assign fails (Some tid) (Some rid) rn s) = Sent dispatched \<longleftrightarrow>
            fails Connect = None \<and> fails Begin = None \<and> fails UpdateTicket = None \<and>
            fails UpdateRescuer = None \<and> fails Commit = None) \<and>
         (fst (ticket_assign fails (Some tid) (Some rid) rn s) = Sent dispatched \<longrightarrow>
            find_ticket (snd (ticket_assign fails (Some tid) (Some rid) rn s)) tid =
              Some (t\<lparr>t_rescuer_id := Some rid, t_rescuer_name := rn, t_status := ''DISPATCHED''\<rparr>) \<and>
            find_rescuer (snd (ticket_assign fails (Some tid) (Some rid) rn s)) rid =
              Some (r\<lparr>r_status := ''on-mission''\<rparr>)) \<and>
         (fst (ticket_assign fails (Some tid) (Some rid) rn s) \<noteq> Sent dispatched \<longrightarrow>
            snd (ticket_assign fails (Some tid) (Some rid) rn s) = s)"
proof (cases "fails Connect = None \<and> fails Begin = None \<and> fails UpdateTicket = None \<and>
            fails UpdateRescuer = None \<and> fails Commit = None")
  case True
  then have eq: "ticket_assign fails (Some tid) (Some rid) rn s =
      (Sent dispatched, updateRescuer (Some rid) (updateTicket (Some rid) rn (Some tid) s))"
    by (simp add: assign_ok)
  have kt: "t_id t = tid" using assms(1) unfolding find_ticket_def by (rule find_SomeD_key)
  have kr: "r_id r = rid" using assms(2) unfolding find_rescuer_def by (rule find_SomeD_key)
  show ?thesis using True assms kt kr
    by (simp add: eq find_ticket_assigned find_rescuer_assigned sql_eq_def)
next
  case False
  then have "snd (ticket_assign fails (Some tid) (Some rid) rn s) = s \<and>
         fst (ticket_assign fails (Some tid) (Some rid) rn s) \<noteq> Sent dispatched"
    using assign_fail_store[of fails "Some tid" "Some rid" rn s] by blast
  with False show ?thesis by simp
qed

theorem assign_success_updates_witness:
  "find_ticket demo 1 = Some ticket1 \<and> find_rescuer demo 5 = Some alex \<and>
   fst (ticket_assign no_faults (Some 1) (Some 5) (Some ''Alex'') demo) = Sent dispatched \<and>
   find_ticket (snd (ticket_assign no_faults (Some 1) (Some 5) (Some ''Alex'') demo)) 1 =
     Some (ticket1\<lparr>t_rescuer_id := Some 5, t_rescuer_name := Some ''Alex'',
                   t_status := ''DISPATCHED''\<rparr>) \<and>
   find_rescuer (snd (ticket_assign no_faults (Some 1) (Some 5) (Some ''Alex'') demo)) 5 =
     Some (alex\<lparr>r_status := ''on-mission''\<rparr>)"
proof -
  have t: "find_ticket demo 1 = Some ticket1"
    by (simp add: find_ticket_def demo_def ticket1_def)
  have r: "find_rescuer demo 5 = Some alex"
    by (simp add: find_rescuer_def demo_def alex_def)
  show ?thesis
    using assign_success_updates [OF t r, of no_faults "Some ''Alex''"] t r
    by (simp add: no_faults_def)
qed

text \<open>
  C8. AssignRescuer has no guard on the ticket's current status: for every stored ticket,
  whatever its status and whoever it was dispatched to, an assignment that meets no store
  failure succeeds and overwrites rescuer_id, rescuer_name and status (to DISPATCHED).
\<close>

theorem assign_no_transition_guard:
  assumes "fails Connect = None" "fails Begin = None" "fails UpdateTicket = None"
    "fails UpdateRescuer = None" "fails Commit = None"
    and "find_ticket s tid = Some t"
  shows "fst (ticket_assign fails (Some tid) rid rn s) = Sent dispatched \<and>
         find_ticket (snd (ticket_assign fails (Some tid) rid rn s)) tid =
           Some (t\<lparr>t_rescuer_id := rid, t_rescuer_name := rn, t_status := ''DISPATCHED''\<rparr>)"
proof -
  have kt: "t_id t = tid" using assms(6) unfolding find_ticket_def by (rule find_SomeD_key)
  show ?thesis using assms kt
    by (simp add: assign_ok find_ticket_assigned sql_eq_def)
qed

theorem assign_no_transition_guard_witness:
  "find_ticket demo 2 = Some ticket2 \<and> t_status ticket2 = ''SOLVED'' \<and>
   t_rescuer_id ticket2 = Some 7 \<and>
   fst (ticket_assign no_faults (Some 2) (Some 5) (Some ''Alex'') demo) = Sent dispatched \<and>
   find_ticket (snd (ticket_assign no_faults (Some 2) (Some 5) (Some ''Alex'') demo)) 2 =
     Some (ticket2\<lparr>t_rescuer_id := Some 5, t_rescuer_name := Some ''Alex'',
                   t_status := ''DISPATCHED''\<rparr>)"
proof -
  have t: "find_ticket demo 2 = Some ticket2"
    by (simp add: find_ticket_def demo_def ticket1_def ticket2_def ticket3_def)
  have n: "no_faults Connect = None" "no_faults Begin = None" "no_faults UpdateTicket = None"
    "no_faults UpdateRescuer = None" "no_faults Commit = None"
    by (simp_all add: no_faults_def)
  show ?thesis
    using assign_no_transition_guard [OF n t, of "Some 5" "Some ''Alex''"] t
    by (simp add: ticket2_def)
qed

text \<open>
  C10. An assignment that meets no store failure answers "Unit dispatched!" for every
  ticketId and rescuerId, also when no row has that id: then the statement updates no row,
  and the table of the missing entity is as it was.
\<close>

theorem assign_missing_row_reports_success:
  assumes "fails Connect = None" "fails Begin = None" "fails UpdateTicket = None"
    "fails UpdateRescuer = None" "fails Commit = None"
  shows "fst (ticket_assign fails tid rid rn s) = Sent dispatched \<and>
         ((\<forall>t \<in> set (tickets s). \<not> sql_eq tid (t_id t)) \<longrightarrow>
            tickets (snd (ticket_assign fails tid rid rn s)) = tickets s) \<and>
         ((\<forall>r \<in> set (rescuers s). \<not> sql_eq rid (r_id r)) \<longrightarrow>
            rescuers (snd (ticket_assign fails tid rid rn s)) = rescuers s)"
  using assms
  by (simp add: assign_ok updateRescuer_def updateTicket_def map_unchanged)

theorem assign_missing_row_reports_success_witness:
  "find_ticket demo 99 = None \<and> find_rescuer demo 42 = None \<and>
   fst (ticket_assign no_faults (Some 99) (Some 42) (Some ''Nobody'') demo) = Sent dispatched \<and>
   tickets (snd (ticket_assign no_faults (Some 99) (Some 42) (Some ''Nobody'') demo)) = tickets demo \<and>
   rescuers (snd (ticket_assign no_faults (Some 99) (Some 42) (Some ''Nobody'') demo)) = rescuers demo"
proof -
  have n: "no_faults Connect = None" "no_faults Begin = None" "no_faults UpdateTicket = None"
    "no_faults UpdateRescuer = None" "no_faults Commit = None"
    by (simp_all add: no_faults_def)
  have m: "\<forall>t \<in> set (tickets demo). \<not> sql_eq (Some 99) (t_id t)"
    "\<forall>r \<in> set (rescuers demo). \<not> sql_eq (Some 42) (r_id r)"
    by (simp_all add: demo_def sql_eq_def ticket1_def ticket2_def ticket3_def alex_def sam_def)
  show ?thesis
    using assign_missing_row_reports_success [OF n, of "Some 99" "Some 42" "Some ''Nobody''" demo] m
    by (simp add: find_ticket_def find_rescuer_def demo_def ticket1_def ticket2_def ticket3_def alex_def
        sam_def)
qed

section \<open>Solving a ticket\<close>

text \<open>
  C4. SolveTicket is unconditional and idempotent: for every stored ticket, whatever its
  status, a solve that meets no store failure answers "Ticket marked as solved" and leaves
  the ticket with status SOLVED and with its other fields, rescuer_id and rescuer_name
  among them, as they were; a second solve answers the same and leaves the store as the
  first one left it. The rescuers table is not touched.
\<close>

theorem solve_idempotent:
  assumes "fails SolveUpdate = None" and "find_ticket s k = Some t"
  shows "let solved = Response 200 (Obj [(''message'', JStr ''Ticket marked as solved'')]);
             once = ticket_solve fails k s;
             twice = ticket_solve fails k (snd once)
         in fst once = solved \<and> fst twice = solved \<and> snd twice = snd once \<and>
            find_ticket (snd once) k = Some (t\<lparr>t_status := ''SOLVED''\<rparr>) \<and>
            find_ticket (snd twice) k = Some (t\<lparr>t_status := ''SOLVED''\<rparr>) \<and>
            rescuers (snd once) = rescuers s"
proof -
  have kt: "t_id t = k" using assms(2) unfolding find_ticket_def by (rule find_SomeD_key)
  have fr: "rescuers (solveUpdate k s) = rescuers s" by (simp add: solveUpdate_def)
  have ft: "find_ticket (solveUpdate k s) k = Some (t\<lparr>t_status := ''SOLVED''\<rparr>)"
    using assms(2) kt by (simp add: find_ticket_solved)
  show ?thesis using assms(1) fr ft
    by (simp add: solve_ok solveUpdate_twice Let_def)
qed

theorem solve_idempotent_witness:
  "no_faults SolveUpdate = None \<and> find_ticket demo 3 = Some ticket3 \<and>
   fst (ticket_solve no_faults 3 demo) =
     Response 200 (Obj [(''message'', JStr ''Ticket marked as solved'')]) \<and>
   fst (ticket_solve no_faults 3 (snd (ticket_solve no_faults 3 demo))) =
     Response 200 (Obj [(''message'', JStr ''Ticket marked as solved'')]) \<and>
   find_ticket (snd (ticket_solve no_faults 3 demo)) 3 = Some (ticket3\<lparr>t_status := ''SOLVED''\<rparr>) \<and>
   find_ticket (snd (ticket_solve no_faults 3 (snd (ticket_solve no_faults 3 demo)))) 3 =
     Some (ticket3\<lparr>t_status := ''SOLVED''\<rparr>) \<and>
   rescuers (snd (ticket_solve no_faults 3 demo)) = [alex, sam]"
proof -
  have n: "no_faults SolveUpdate = None" by (simp add: no_faults_def)
  have t: "find_ticket demo 3 = Some ticket3"
    by (simp add: find_ticket_def demo_def ticket1_def ticket2_def ticket3_def)
  show ?thesis
    using solve_idempotent [where fails = no_faults and s = demo and k = 3 and t = ticket3] n t
    by (simp add: Let_def demo_def)
qed

section \<open>Location reports\<close>

text \<open>
  C3. ReportLocation for a stored rescuer derives the status from the tickets table:
  responding when some ticket has rescuer_id = rescuerId and status DISPATCHED, available
  otherwise. The one \<^verbatim>\<open>UPDATE\<close> writes last_lat, last_lon and the derived status
  together: when it succeeds the rescuer's row carries all three (and the response names
  the status), when it fails the store is as it was.
\<close>

theorem location_derives_status:
  assumes "fails CheckMission = None" and "find_rescuer s rid = Some r"
  shows "let st = (if \<exists>t \<in> set (tickets s). t_rescuer_id t = Some rid \<and> t_status t = ''DISPATCHED''
                   then ''responding'' else ''available'');
             res = rescuer_location fails (Some rid) lat lon s
         in (fails LocationUpdate = None \<longrightarrow>
               fst res = Response 200 (Obj [(''success'', JBool True), (''status'', JStr st)]) \<and>
               find_rescuer (snd res) rid =
                 Some (r\<lparr>r_last_lat := lat, r_last_lon := lon, r_status := st\<rparr>) \<and>
               tickets (snd res) = tickets s) \<and>
            (fails LocationUpdate \<noteq> None \<longrightarrow> snd res = s)"
proof -
  have kr: "r_id r = rid" using assms(2) unfolding find_rescuer_def by (rule find_SomeD_key)
  have m: "0 < length (checkMission (Some rid) s) \<longleftrightarrow>
           (\<exists>t \<in> set (tickets s). t_rescuer_id t = Some rid \<and> t_status t = ''DISPATCHED'')"
    unfolding checkMission_def has_rows_iff
    by (auto simp add: sql_eq_null_def sql_eq_def split: option.splits)
  show ?thesis
  proof (cases "fails LocationUpdate")
    case None
    then show ?thesis using assms kr m
      by (simp add: rescuer_location_def pool_select_def pool_query_def locationUpdate_def
          find_rescuer_def find_map_keep sql_eq_def Let_def)
  next
    case (Some e)
    then show ?thesis using assms
      by (simp add: rescuer_location_def pool_select_def pool_query_def Let_def)
  qed
qed

theorem location_derives_status_witness:
  "no_faults CheckMission = None \<and> find_rescuer demo 7 = Some sam \<and>
   fst (rescuer_location no_faults (Some 7) (Some 10.3) (Some 123.9) demo) =
     Response 200 (Obj [(''success'', JBool True), (''status'', JStr ''responding'')]) \<and>
   find_rescuer (snd (rescuer_location no_faults (Some 7) (Some 10.3) (Some 123.9) demo)) 7 =
     Some (sam\<lparr>r_last_lat := Some 10.3, r_last_lon := Some 123.9, r_status := ''responding''\<rparr>)"
proof -
  have n: "no_faults CheckMission = None" by (simp add: no_faults_def)
  have r: "find_rescuer demo 7 = Some sam"
    by (simp add: find_rescuer_def demo_def alex_def sam_def)
  have m: "\<exists>t \<in> set (tickets demo). t_rescuer_id t = Some 7 \<and> t_status t = ''DISPATCHED''"
    by (simp add: demo_def ticket3_def)
  show ?thesis
    using location_derives_status [where fails = no_faults and s = demo and rid = 7 and r = sam
        and lat = "Some 10.3" and lon = "Some 123.9"] n r m
    by (simp add: Let_def no_faults_def)
qed

section \<open>Login and logout\<close>

text \<open>
  C5. A successful Login (the badge is found, the hasher accepts the password, no store
  failure) leaves the rescuer's row with status available, whatever the status was before,
  and with its other fields as they were; Logout that meets no store failure leaves the
  rescuer's row with status off-duty.
\<close>

theorem login_logout_force_status:
  assumes "fails LoginSelect = None" "fails LoginUpdate = None" "fails LogoutUpdate = None"
    and "find (\<lambda>x. r_badge_id x = b) (rescuers s) = Some r"
    and "compare pw (r_password r) = Some True"
    and "find_rescuer s' k = Some r'"
  shows "find (\<lambda>x. r_badge_id x = b) (rescuers (snd (rescuer_login fails compare (Some b) pw s)))
           = Some (r\<lparr>r_status := ''available''\<rparr>) \<and>
         find_rescuer (snd (rescuer_logout fails (Some k) s')) k = Some (r'\<lparr>r_status := ''off-duty''\<rparr>)"
proof -
  have kr: "r_id r' = k" using assms(6) unfolding find_rescuer_def by (rule find_SomeD_key)
  have login: "rescuer_login fails compare (Some b) pw s = (Response 200 (Row r), loginUpdate (r_id r) s)"
    using assms(1,2,4,5) by (simp add: login_known_badge)
  show ?thesis using assms kr
    by (simp add: login loginUpdate_def rescuer_logout_def pool_query_def logoutUpdate_def
        find_rescuer_def find_map_keep sql_eq_def)
qed

theorem login_logout_force_status_witness:
  "find (\<lambda>x. r_badge_id x = ''B-007'') (rescuers demo) = Some sam \<and>
   r_status sam = ''on-mission'' \<and>
   demo_compare (Some ''sierra'') (r_password sam) = Some True \<and>
   find_rescuer demo 5 = Some alex \<and>
   find (\<lambda>x. r_badge_id x = ''B-007'')
     (rescuers (snd (rescuer_login no_faults demo_compare (Some ''B-007'') (Some ''sierra'') demo))) =
     Some (sam\<lparr>r_status := ''available''\<rparr>) \<and>
   find_rescuer (snd (rescuer_logout no_faults (Some 5) demo)) 5 =
     Some (alex\<lparr>r_status := ''off-duty''\<rparr>)"
proof -
  have n: "no_faults LoginSelect = None" "no_faults LoginUpdate = None"
    "no_faults LogoutUpdate = None"
    by (simp_all add: no_faults_def)
  have f: "find (\<lambda>x. r_badge_id x = ''B-007'') (rescuers demo) = Some sam"
    by (simp add: demo_def alex_def sam_def)
  have c: "demo_compare (Some ''sierra'') (r_password sam) = Some True"
    by (simp add: demo_compare_def sam_def)
  have a: "find_rescuer demo 5 = Some alex"
    by (simp add: find_rescuer_def demo_def alex_def)
  show ?thesis
    using login_logout_force_status [where fails = no_faults and s = demo and b = "''B-007''"
        and r = sam and compare = demo_compare and pw = "Some ''sierra''" and s' = demo
        and k = 5 and r' = alex] n f c a
    by (simp add: sam_def)
qed

text \<open>
  C7. The two ways a login fails on its credentials, on any two stores. A badge_id that no
  rescuer has gets 401 "Auth Failed". A known badge_id with a password that does not verify
  gets the same 401 when the hasher resolves to false, but 500 "Server Error" when the
  hasher rejects, as it does for a request without a password: the rejection lands in the
  \<^verbatim>\<open>catch\<close> block. So the two responses are equal exactly when the hasher resolved to
  false, and otherwise the response tells that the badge_id exists. Neither attempt changes
  the store.
\<close>

theorem login_failure_by_cause:
  assumes "fails1 LoginSelect = None" and "fails2 LoginSelect = None"
    and "\<forall>x \<in> set (rescuers s1). \<not> sql_eq b1 (r_badge_id x)"
    and "find (\<lambda>x. r_badge_id x = b2) (rescuers s2) = Some r"
    and "compare pw2 (r_password r) \<noteq> Some True"
  shows "fst (rescuer_login fails1 compare b1 pw1 s1) = auth_failed \<and>
         fst (rescuer_login fails2 compare (Some b2) pw2 s2) =
           (if compare pw2 (r_password r) = None then server_error else auth_failed) \<and>
         (fst (rescuer_login fails1 compare b1 pw1 s1) =
            fst (rescuer_login fails2 compare (Some b2) pw2 s2)) =
           (compare pw2 (r_password r) = Some False) \<and>
         snd (rescuer_login fails1 compare b1 pw1 s1) = s1 \<and>
         snd (rescuer_login fails2 compare (Some b2) pw2 s2) = s2"
proof (cases "compare pw2 (r_password r)")
  case None
  then show ?thesis using assms(1-4)
    by (simp add: login_unknown_badge login_known_badge auth_failed_def server_error_def)
next
  case (Some match)
  with assms(5) have "compare pw2 (r_password r) = Some False" by simp
  then show ?thesis using assms(1-4)
    by (simp add: login_unknown_badge login_known_badge)
qed

theorem login_failure_by_cause_witness:
  "find (\<lambda>x. r_badge_id x = ''B-005'') (rescuers demo) = Some alex \<and>
   demo_compare None (r_password alex) = None \<and>
   fst (rescuer_login no_faults demo_compare (Some ''B-999'') None demo) =
     Response 401 (Obj [(''error'', JStr ''Auth Failed'')]) \<and>
   fst (rescuer_login no_faults demo_compare (Some ''B-005'') None demo) =
     Response 500 (Obj [(''error'', JStr ''Server Error'')]) \<and>
   fst (rescuer_login no_faults demo_compare (Some ''B-999'') None demo) \<noteq>
     fst (rescuer_login no_faults demo_compare (Some ''B-005'') None demo)"
proof -
  have n: "no_faults LoginSelect = None" by (simp add: no_faults_def)
  have u: "\<forall>x \<in> set (rescuers demo). \<not> sql_eq (Some ''B-999'') (r_badge_id x)"
    by (simp add: demo_def alex_def sam_def sql_eq_def)
  have f: "find (\<lambda>x. r_badge_id x = ''B-005'') (rescuers demo) = Some alex"
    by (simp add: demo_def alex_def)
  have c: "demo_compare None (r_password alex) = None"
    by (simp add: demo_compare_def)
  show ?thesis
    using login_failure_by_cause [where ?fails1.0 = no_faults and ?fails2.0 = no_faults
        and ?s1.0 = demo and ?s2.0 = demo and ?b1.0 = "Some ''B-999''" and ?b2.0 = "''B-005''"
        and r = alex and compare = demo_compare and ?pw1.0 = None and ?pw2.0 = None] n u f c
    by (auto simp add: auth_failed_def server_error_def)
qed

text \<open>
  C9. The body of a successful login response is the rescuer row as the
  \<^verbatim>\<open>SELECT\<close> read it, before the status update: it is a row of the pre-state, with
  the stored password hash and the pre-login status, while the row now in the store has
  status available; so when the status was not available before, the body is not the
  stored row.
\<close>

theorem login_returns_row_as_read:
  assumes "fails LoginSelect = None" and "fails LoginUpdate = None"
    and "find (\<lambda>x. r_badge_id x = b) (rescuers s) = Some r"
    and "compare pw (r_password r) = Some True"
  shows "fst (rescuer_login fails compare (Some b) pw s) = Response 200 (Row r) \<and>
         r \<in> set (rescuers s) \<and>
         find (\<lambda>x. r_badge_id x = b) (rescuers (snd (rescuer_login fails compare (Some b) pw s))) =
           Some (r\<lparr>r_status := ''available''\<rparr>) \<and>
         (r_status r \<noteq> ''available'' \<longrightarrow>
            fst (rescuer_login fails compare (Some b) pw s) \<noteq>
              Response 200 (Row (r\<lparr>r_status := ''available''\<rparr>)))"
proof -
  have mem: "r \<in> set (rescuers s)"
    using assms(3) by (auto simp add: find_Some_iff)
  have neq: "r_status r \<noteq> ''available'' \<Longrightarrow> r \<noteq> r\<lparr>r_status := ''available''\<rparr>"
    by (auto dest: arg_cong [of _ _ r_status])
  show ?thesis using assms mem neq
    by (simp add: login_known_badge loginUpdate_def find_map_keep)
qed

theorem login_returns_row_as_read_witness:
  "find (\<lambda>x. r_badge_id x = ''B-007'') (rescuers demo) = Some sam \<and>
   demo_compare (Some ''sierra'') (r_password sam) = Some True \<and>
   fst (rescuer_login no_faults demo_compare (Some ''B-007'') (Some ''sierra'') demo) =
     Response 200 (Row sam) \<and>
   r_password sam = ''hash(sierra)'' \<and> r_status sam = ''on-mission'' \<and>
   fst (rescuer_login no_faults demo_compare (Some ''B-007'') (Some ''sierra'') demo) \<noteq>
     Response 200 (Row (sam\<lparr>r_status := ''available''\<rparr>))"
proof -
  have n: "no_faults LoginSelect = None" "no_faults LoginUpdate = None"
    by (simp_all add: no_faults_def)
  have f: "find (\<lambda>x. r_badge_id x = ''B-007'') (rescuers demo) = Some sam"
    by (simp add: demo_def alex_def sam_def)
  have c: "demo_compare (Some ''sierra'') (r_password sam) = Some True"
    by (simp add: demo_compare_def sam_def)
  have st: "r_status sam \<noteq> ''available''" "r_password sam = ''hash(sierra)''"
    "r_status sam = ''on-mission''"
    by (simp_all add: sam_def)
  show ?thesis
    using login_returns_row_as_read [where fails = no_faults and s = demo and b = "''B-007''"
        and r = sam and compare = demo_compare and pw = "Some ''sierra''"] n f c st
    by auto
qed

section \<open>Updating a rescuer\<close>

text \<open>
  C6. UpdateRescuer without a new image leaves the stored profile_image of the rescuer as
  it was, whether the update succeeds or fails, and the image route answers afterwards
  what it answered before; an update with a new image that succeeds stores the new bytes,
  and the image route then returns them.
\<close>

theorem put_preserves_image:
  assumes "find_rescuer s k = Some r"
  shows "map_option r_profile_image
           (find_rescuer (snd (rescuers_put fails k name badge callsign phone None s)) k) =
           Some (r_profile_image r) \<and>
         rescuers_image fails' k (snd (rescuers_put fails k name badge callsign phone None s)) =
           rescuers_image fails' k s \<and>
         (fst (rescuers_put fails k name badge callsign phone (Some img) s) = updated \<longrightarrow>
            map_option r_profile_image
              (find_rescuer (snd (rescuers_put fails k name badge callsign phone (Some img) s)) k) =
              Some (Some img) \<and>
            (fails' ImageSelect = None \<longrightarrow>
               rescuers_image fails' k (snd (rescuers_put fails k name badge callsign phone (Some img) s)) =
                 Response 200 (Image img)))"
proof -
  have keep: "map_option r_profile_image
           (find_rescuer (snd (rescuers_put fails k name badge callsign phone None s)) j) =
           map_option r_profile_image (find_rescuer s j)" for j
    using put_cases[of fails k name badge callsign phone None s]
    by (auto simp add: find_rescuer_putWithoutImage)
  have a: "map_option r_profile_image
           (find_rescuer (snd (rescuers_put fails k name badge callsign phone None s)) k) =
           Some (r_profile_image r)"
    using assms by (simp add: keep)
  have b: "rescuers_image fails' k (snd (rescuers_put fails k name badge callsign phone None s)) =
           rescuers_image fails' k s"
    by (simp add: image_lookup keep cong: option.case_cong)
  have c: "map_option r_profile_image
              (find_rescuer (snd (rescuers_put fails k name badge callsign phone (Some img) s)) k) =
              Some (Some img)"
    if ok: "fst (rescuers_put fails k name badge callsign phone (Some img) s) = updated"
  proof -
    from put_cases[of fails k name badge callsign phone "Some img" s] ok
    have nv: "\<not> put_violation name badge k s"
      and eq: "rescuers_put fails k name badge callsign phone (Some img) s =
                 (updated, putWithImage name badge callsign phone img k s)"
      by (auto simp add: updated_def update_failed_def)
    from no_violation_named[OF nv assms] obtain n b where "name = Some n" "badge = Some b"
      by blast
    then show ?thesis using eq assms by (simp add: find_rescuer_putWithImage)
  qed
  have d: "rescuers_image fails' k
             (snd (rescuers_put fails k name badge callsign phone (Some img) s)) =
           Response 200 (Image img)"
    if "fst (rescuers_put fails k name badge callsign phone (Some img) s) = updated"
      and "fails' ImageSelect = None"
    using c[OF that(1)] that(2) by (simp only: image_lookup) simp
  show ?thesis using a b c d by blast
qed

theorem put_preserves_image_witness:
  "find_rescuer demo 5 = Some alex \<and>
   map_option r_profile_image
     (find_rescuer (snd (rescuers_put no_faults 5 (Some ''Alexis'') (Some ''B-005'') None
        (Some ''0999'') None demo)) 5) = Some (Some [255, 216, 255]) \<and>
   rescuers_image no_faults 5 (snd (rescuers_put no_faults 5 (Some ''Alexis'') (Some ''B-005'') None
        (Some ''0999'') None demo)) = Response 200 (Image [255, 216, 255]) \<and>
   fst (rescuers_put no_faults 5 (Some ''Alexis'') (Some ''B-005'') None (Some ''0999'')
        (Some [1, 2, 3]) demo) = updated \<and>
   rescuers_image no_faults 5 (snd (rescuers_put no_faults 5 (Some ''Alexis'') (Some ''B-005'') None
        (Some ''0999'') (Some [1, 2, 3]) demo)) = Response 200 (Image [1, 2, 3])"
proof -
  have a: "find_rescuer demo 5 = Some alex"
    by (simp add: find_rescuer_def demo_def alex_def)
  have i: "rescuers_image no_faults 5 demo = Response 200 (Image [255, 216, 255])"
    by (simp add: rescuers_image_def pool_select_def no_faults_def demo_def alex_def sam_def)
  have v: "\<not> put_violation (Some ''Alexis'') (Some ''B-005'') 5 demo"
    by (simp add: put_violation_def demo_def alex_def sam_def)
  have u: "fst (rescuers_put no_faults 5 (Some ''Alexis'') (Some ''B-005'') None (Some ''0999'')
        (Some [1, 2, 3]) demo) = updated"
    using v by (simp add: rescuers_put_def pool_query_def no_faults_def)
  have n: "no_faults ImageSelect = None" by (simp add: no_faults_def)
  show ?thesis
    using put_preserves_image [where s = demo and k = 5 and r = alex and fails = no_faults
        and name = "Some ''Alexis''" and badge = "Some ''B-005''" and callsign = None
        and phone = "Some ''0999''" and fails' = no_faults and img = "[1, 2, 3]"] a i u n
    by (simp add: alex_def)
qed

end
